theory Spec2Isabelle
  imports Complex_Main
begin

section \<open>Values, effects and the outside world\<close>

text \<open>
  The program is one Python script, \<^verbatim>\<open>main.py\<close>: a grid generator, a weather fetcher, a
  retrying writer to a document store, a liveness ping and the loop that drives them.
  Everything it does beyond computing is an effect on the outside world (HTTP requests,
  inserts, sleeps, log lines, clock reads), so each function of the model takes the state of
  the run and returns its result together with the new state. The state holds the effects
  performed so far, in order.

  The type \<open>'f\<close> stands for Python's float. Nothing is assumed about it in this section:
  floats are only carried around (coordinates, payload numbers).
\<close>

type_synonym timestamp = nat
type_synonym object_id = nat

datatype 'f pyval =
    PNone
  | PBool bool
  | PInt int
  | PFloat 'f
  | PStr string
  | PDatetime timestamp
  | PObjectId object_id
  | PList "'f pyval list"
  | PDict "(string \<times> 'f pyval) list"

text \<open>
  A Python \<^verbatim>\<open>dict\<close> with string keys is a list of key-value pairs in insertion order,
  each key once. \<^verbatim>\<open>d[k] = v\<close> replaces the value of a key that is present and appends the
  pair otherwise; \<^verbatim>\<open>{**a, **b}\<close> starts from \<open>a\<close> and stores the pairs of \<open>b\<close> in order.
\<close>

type_synonym 'v dict = "(string \<times> 'v) list"

fun dict_setitem :: "string \<Rightarrow> 'v \<Rightarrow> 'v dict \<Rightarrow> 'v dict" where
  "dict_setitem k v [] = [(k, v)]"
| "dict_setitem k v ((k', v') # d) =
     (if k' = k then (k, v) # d else (k', v') # dict_setitem k v d)"

fun dict_merge :: "'v dict \<Rightarrow> 'v dict \<Rightarrow> 'v dict" where
  "dict_merge a [] = a"
| "dict_merge a ((k, v) # b) = dict_merge (dict_setitem k v a) b"

text \<open>
  Exceptions, by the class the program's \<^verbatim>\<open>except\<close> clauses tell apart. \<open>AutoReconnect\<close>
  and \<open>RequestException\<close> stand for the class and its subclasses; \<open>OtherException\<close> is an
  exception of a class the program names nowhere.
\<close>

datatype exn =
    AutoReconnect
  | PyMongoError string
  | RequestException string
  | JSONDecodeError
  | KeyError string
  | TypeError
  | ValueError
  | OtherException string

datatype level = DEBUG | INFO | WARNING | ERROR

datatype 'f event =
    Log level string "'f pyval list"
  | LogException string exn
  | Get string "'f pyval dict" "int option"
  | InsertOne string string "'f pyval dict"
  | Print "'f pyval"
  | Sleep rat
  | Ping

text \<open>
  \<open>Log lvl template args\<close> is one call of a logger method, with the message as written in
  the source and the values its f-string interpolates. \<open>LogException\<close> is
  \<^verbatim>\<open>logger.exception\<close>. \<open>Get url params timeout\<close> is one \<^verbatim>\<open>requests.get\<close>.
  \<open>InsertOne database collection document\<close> is one \<^verbatim>\<open>insert_one\<close>, with the document as the
  driver sends it. \<open>Sleep\<close> is \<^verbatim>\<open>time.sleep\<close>, in seconds: the program sleeps for squares of
  integers and for 1.5, so a rational says how long.
\<close>

record response =
  status_code :: int
  resp_text :: string

datatype http_outcome = Responds response | Raises exn

datatype insert_outcome = Acknowledged | InsertRaises exn

datatype 'f insert_result = InsertOneResult (inserted_id: "'f pyval")

text \<open>
  What the program does not decide is a parameter: the credentials file, the libraries it
  calls and the answers of the services it talks to. \<open>requests_get w k\<close> is the outcome of the
  \<open>k\<close>-th GET of the run: a response, or an exception of any class (the library raises
  \<^verbatim>\<open>requests.RequestException\<close> for a failed connection or a timeout, and lets exceptions of
  other classes through, such as urllib3's \<^verbatim>\<open>LocationParseError\<close> for a host name with an
  empty label).
  \<open>insert_one w k\<close> is what the store answers to the \<open>k\<close>-th insert, \<open>new_object_id w k\<close> the
  \<^verbatim>\<open>ObjectId\<close> the driver would generate at that insert, \<open>utc_now w k\<close> what the \<open>k\<close>-th reading
  of the clock returns, \<open>json_loads w\<close> is \<^verbatim>\<open>json.loads\<close> (\<open>None\<close> when it raises
  \<^verbatim>\<open>JSONDecodeError\<close>), \<open>linspace w\<close> is \<^verbatim>\<open>numpy.linspace\<close> and \<open>ping w\<close> the exception, if any,
  of the connection test.
\<close>

record 'f world =
  APIKEY :: string
  HEALTHCHECK_URL :: string
  COORDINATES :: "('f \<times> 'f) list"
  json_loads :: "string \<Rightarrow> 'f pyval option"
  linspace :: "'f \<Rightarrow> 'f \<Rightarrow> int \<Rightarrow> exn + 'f list"
  requests_get :: "nat \<Rightarrow> http_outcome"
  insert_one :: "nat \<Rightarrow> insert_outcome"
  new_object_id :: "nat \<Rightarrow> object_id"
  utc_now :: "nat \<Rightarrow> timestamp"
  ping :: "exn option"

record 'f state =
  trace :: "'f event list"
  gets :: nat
  inserts :: nat
  clock_reads :: nat

definition emit :: "'f event \<Rightarrow> 'f state \<Rightarrow> 'f state" where
  "emit e st = st\<lparr>trace := trace st @ [e]\<rparr>"

definition BASEURL :: string where
  "BASEURL = ''https://api.openweathermap.org/data/2.5/weather''"

definition sleeps :: "'f event list \<Rightarrow> rat list" where
  "sleeps es = concat (map (\<lambda>e. case e of Sleep r \<Rightarrow> [r] | _ \<Rightarrow> []) es)"

definition inserted_docs :: "'f event list \<Rightarrow> 'f pyval dict list" where
  "inserted_docs es = concat (map (\<lambda>e. case e of InsertOne _ _ d \<Rightarrow> [d] | _ \<Rightarrow> []) es)"

section \<open>Persistence Writer\<close>

text \<open>
  \<^verbatim>\<open>
  for attempt in range(max_retries + 1):
      try:
          result = coll.insert_one(data)
          print(result.inserted_id)
          return result
      except errors.AutoReconnect:
          if attempt + 1 == max_retries:
              logger.error("Max retries exceeded, mongodb reconnection has failed")
              raise
          retry_pause = (attempt + 1) ** 2
          logger.warning(f"Mongo Connection Issues, ...")
          sleep(retry_pause)
  \<close>
  The loop runs over the values of \<^verbatim>\<open>range\<close>, here a list. Leaving the loop at its end, the
  function returns Python's \<^verbatim>\<open>None\<close>: the result is an optional \<open>insert_result\<close>. An
  exception that is not an \<^verbatim>\<open>AutoReconnect\<close> leaves the function at once.

  pymongo's \<^verbatim>\<open>insert_one(document)\<close> changes the dict it is given: when the document has no
  \<^verbatim>\<open>_id\<close> it stores a fresh \<^verbatim>\<open>ObjectId\<close> under that key, before anything is sent, and the
  result's \<^verbatim>\<open>inserted_id\<close> is the document's \<^verbatim>\<open>_id\<close>. The dict is the caller's, so the key
  stays for the next attempt and for the caller: the loop carries the document along and
  returns it.
\<close>

definition ensure_id :: "'f world \<Rightarrow> nat \<Rightarrow> 'f pyval dict \<Rightarrow> 'f pyval dict" where
  "ensure_id w k doc =
     (case map_of doc ''_id'' of
        None \<Rightarrow> dict_setitem ''_id'' (PObjectId (new_object_id w k)) doc
      | Some v \<Rightarrow> doc)"

definition doc_id :: "'f pyval dict \<Rightarrow> 'f pyval" where
  "doc_id doc = (case map_of doc ''_id'' of None \<Rightarrow> PNone | Some v \<Rightarrow> v)"

fun insert_attempts ::
  "'f world \<Rightarrow> string \<Rightarrow> string \<Rightarrow> 'f pyval dict \<Rightarrow> int \<Rightarrow> int list \<Rightarrow> 'f state
    \<Rightarrow> (exn + 'f insert_result option) \<times> 'f pyval dict \<times> 'f state" where
  "insert_attempts w database collection doc max_retries [] st = (Inr None, doc, st)"
| "insert_attempts w database collection doc max_retries (attempt # rest) st =
     (let doc1 = ensure_id w (inserts st) doc;
          st1 = (emit (InsertOne database collection doc1) st)\<lparr>inserts := Suc (inserts st)\<rparr> in
      case insert_one w (inserts st) of
        Acknowledged \<Rightarrow>
          (Inr (Some (InsertOneResult (doc_id doc1))), doc1, emit (Print (doc_id doc1)) st1)
      | InsertRaises e \<Rightarrow>
          if e = AutoReconnect then
            if attempt + 1 = max_retries then
              (Inl AutoReconnect, doc1,
               emit (Log ERROR ''Max retries exceeded, mongodb reconnection has failed'' []) st1)
            else
              let retry_pause = (attempt + 1) ^ 2 in
              insert_attempts w database collection doc1 max_retries rest
                (emit (Sleep (of_int retry_pause))
                  (emit (Log WARNING
                     ''Mongo Connection Issues, currently on retry {attempt + 1}, pausing for {retry_pause} seconds before next try.''
                     [PInt (attempt + 1), PInt retry_pause]) st1))
          else (Inl e, doc1, st1))"

text \<open>
  \<^verbatim>\<open>
  data["processed_at"] = None
  data["inserted_at"] = datetime.now(UTC)
  \<close>
  The assignments change the caller's object, so the function also returns \<open>data\<close> as the call
  leaves it. Item assignment on a value that is not a dict (a list with a string index, a
  string, a number, \<^verbatim>\<open>None\<close>) raises \<^verbatim>\<open>TypeError\<close>, before the clock is read.
\<close>

definition insert_data_to_mongodb ::
  "'f world \<Rightarrow> string \<Rightarrow> string \<Rightarrow> 'f pyval \<Rightarrow> int \<Rightarrow> 'f state
    \<Rightarrow> (exn + 'f insert_result option) \<times> 'f pyval \<times> 'f state" where
  "insert_data_to_mongodb w database collection data max_retries st =
     (case data of
        PDict d \<Rightarrow>
          (let d1 = dict_setitem ''processed_at'' PNone d;
               now = utc_now w (clock_reads st);
               st1 = st\<lparr>clock_reads := Suc (clock_reads st)\<rparr>;
               d2 = dict_setitem ''inserted_at'' (PDatetime now) d1;
               (r, d3, st2) =
                 insert_attempts w database collection d2 max_retries [0..max_retries] st1
           in (r, PDict d3, st2))
      | _ \<Rightarrow> (Inl TypeError, data, st))"

text \<open>
  The effects of one attempt that fails with \<^verbatim>\<open>AutoReconnect\<close> and is retried: the insert,
  the warning, the pause.
\<close>

definition retry_events :: "string \<Rightarrow> string \<Rightarrow> 'f pyval dict \<Rightarrow> int \<Rightarrow> 'f event list" where
  "retry_events database collection doc attempt =
     [InsertOne database collection doc,
      Log WARNING
        ''Mongo Connection Issues, currently on retry {attempt + 1}, pausing for {retry_pause} seconds before next try.''
        [PInt (attempt + 1), PInt ((attempt + 1) ^ 2)],
      Sleep (of_int ((attempt + 1) ^ 2))]"

section \<open>Weather Fetcher\<close>

text \<open>
  \<^verbatim>\<open>v[k]\<close> for a string \<open>k\<close>: \<^verbatim>\<open>KeyError\<close> on a dict without the key, \<^verbatim>\<open>TypeError\<close> on a value
  that is not a dict. \<^verbatim>\<open>len(v)\<close> is defined on dicts, lists and strings.
\<close>

definition getitem :: "'f pyval \<Rightarrow> string \<Rightarrow> exn + 'f pyval" where
  "getitem v k =
     (case v of
        PDict d \<Rightarrow> (case map_of d k of Some x \<Rightarrow> Inr x | None \<Rightarrow> Inl (KeyError k))
      | _ \<Rightarrow> Inl TypeError)"

definition py_len :: "'f pyval \<Rightarrow> exn + int" where
  "py_len v =
     (case v of
        PDict d \<Rightarrow> Inr (int (length d))
      | PList xs \<Rightarrow> Inr (int (length xs))
      | PStr s \<Rightarrow> Inr (int (length s))
      | _ \<Rightarrow> Inl TypeError)"

text \<open>
  \<^verbatim>\<open>
  def get_current_weather(url, appid, lat, lon, query_dict={}):
      logger.debug(f"Getting weather api data for {lat},{lon}")
      requiredparams = {"appid": APIKEY, "lat": lat, "lon": lon}
      getparams = {**requiredparams, **query_dict}
      response = requests.get(BASEURL, params=getparams)
      status_code = response.status_code
      resp_dict = json.loads(response.text)
      if status_code == 200:
          logger.debug("Api call successful!")
          return resp_dict
      else:
          errmsg = resp_dict["message"]
          logger.error(f"API Error with with message :{errmsg} code {status_code}")
          return {}
  \<close>
  The request goes to the global \<^verbatim>\<open>BASEURL\<close> with the global \<^verbatim>\<open>APIKEY\<close>; the parameters
  \<open>url\<close> and \<open>appid\<close> are not read.
\<close>

definition get_current_weather ::
  "'f world \<Rightarrow> string \<Rightarrow> string \<Rightarrow> 'f \<Rightarrow> 'f \<Rightarrow> 'f pyval dict \<Rightarrow> 'f state
    \<Rightarrow> (exn + 'f pyval) \<times> 'f state" where
  "get_current_weather w url appid lat lon query_dict st =
     (let st1 = emit (Log DEBUG ''Getting weather api data for {lat},{lon}''
                   [PFloat lat, PFloat lon]) st;
          requiredparams =
            [(''appid'', PStr (APIKEY w)), (''lat'', PFloat lat), (''lon'', PFloat lon)];
          getparams = dict_merge requiredparams query_dict;
          st2 = (emit (Get BASEURL getparams None) st1)\<lparr>gets := Suc (gets st1)\<rparr>
      in case requests_get w (gets st) of
           Raises e \<Rightarrow> (Inl e, st2)
         | Responds response \<Rightarrow>
             (case json_loads w (resp_text response) of
                None \<Rightarrow> (Inl JSONDecodeError, st2)
              | Some resp_dict \<Rightarrow>
                  if status_code response = 200 then
                    (Inr resp_dict, emit (Log DEBUG ''Api call successful!'' []) st2)
                  else
                    (case getitem resp_dict ''message'' of
                       Inl e \<Rightarrow> (Inl e, st2)
                     | Inr errmsg \<Rightarrow>
                         (Inr (PDict []),
                          emit (Log ERROR
                            ''API Error with with message :{errmsg} code {status_code}''
                            [errmsg, PInt (status_code response)]) st2))))"

section \<open>Liveness Reporter\<close>

text \<open>
  \<^verbatim>\<open>
  def healthcheck(hcurl):
      try:
          requests.get(hcurl, timeout=10)
      except requests.RequestException:
          logger.exception("Health check ping failure")
  \<close>
  The \<^verbatim>\<open>except\<close> clause names one class: an exception of another class leaves the function.
\<close>

definition healthcheck :: "'f world \<Rightarrow> string \<Rightarrow> 'f state \<Rightarrow> (exn + unit) \<times> 'f state" where
  "healthcheck w hcurl st =
     (let st1 = (emit (Get hcurl [] (Some 10)) st)\<lparr>gets := Suc (gets st)\<rparr>
      in case requests_get w (gets st) of
           Responds response \<Rightarrow> (Inr (), st1)
         | Raises e \<Rightarrow>
             (case e of
                RequestException msg \<Rightarrow>
                  (Inr (), emit (LogException ''Health check ping failure'' e) st1)
              | _ \<Rightarrow> (Inl e, st1)))"

section \<open>Grid Generator\<close>

text \<open>
  Python's \<^verbatim>\<open>min\<close> and \<^verbatim>\<open>max\<close> of a list walk it and keep the smallest (largest) element;
  on an empty list they raise \<^verbatim>\<open>ValueError\<close>. The order on the float type is taken to be
  linear (no NaN among the corners).
\<close>

fun py_min :: "'a::linorder list \<Rightarrow> exn + 'a" where
  "py_min [] = Inl ValueError"
| "py_min (x # xs) = Inr (fold min xs x)"

fun py_max :: "'a::linorder list \<Rightarrow> exn + 'a" where
  "py_max [] = Inl ValueError"
| "py_max (x # xs) = Inr (fold max xs x)"

text \<open>
  \<^verbatim>\<open>
  def get_grid_coordinates(corners, grid=8):
      logger.info("Getting weather grid coordinates...")
      lat = [x for x, y in corners]
      lon = [y for x, y in corners]
      lat_points = np.linspace(min(lat), max(lat), grid)
      lon_points = np.linspace(min(lon), max(lon), grid)
      grid_coords = [(lat, lon) for lat in lat_points for lon in lon_points]
      logger.info("Grid coordinates obtained")
      return grid_coords
  \<close>
\<close>

definition get_grid_coordinates ::
  "('f::linorder) world \<Rightarrow> ('f \<times> 'f) list \<Rightarrow> int \<Rightarrow> 'f state
    \<Rightarrow> (exn + ('f \<times> 'f) list) \<times> 'f state" where
  "get_grid_coordinates w corners grid st =
     (let st1 = emit (Log INFO ''Getting weather grid coordinates...'' []) st;
          lat = map fst corners;
          lon = map snd corners
      in case py_min lat of Inl e \<Rightarrow> (Inl e, st1) | Inr min_lat \<Rightarrow>
        (case py_max lat of Inl e \<Rightarrow> (Inl e, st1) | Inr max_lat \<Rightarrow>
        (case linspace w min_lat max_lat grid of Inl e \<Rightarrow> (Inl e, st1) | Inr lat_points \<Rightarrow>
        (case py_min lon of Inl e \<Rightarrow> (Inl e, st1) | Inr min_lon \<Rightarrow>
        (case py_max lon of Inl e \<Rightarrow> (Inl e, st1) | Inr max_lon \<Rightarrow>
        (case linspace w min_lon max_lon grid of Inl e \<Rightarrow> (Inl e, st1) | Inr lon_points \<Rightarrow>
           (Inr [(lat, lon). lat \<leftarrow> lat_points, lon \<leftarrow> lon_points],
            emit (Log INFO ''Grid coordinates obtained'' []) st1)))))))"

text \<open>
  What one call \<^verbatim>\<open>numpy.linspace(start, stop, num)\<close> is expected to return: \<open>num\<close> values,
  the first \<open>start\<close>, the last \<open>stop\<close>, strictly increasing when \<open>start < stop\<close> and all equal
  to \<open>start\<close> when \<open>start = stop\<close>. The float64 function returns this when the span does not
  overflow and the \<open>num\<close> values round to distinct floats; it does not on extreme corners
  (from \<open>-1e308\<close> to \<open>1e308\<close> the span overflows and the values are \<^verbatim>\<open>nan, inf, ..., 1e308\<close>).
\<close>

definition axis_spans :: "'a::linorder \<Rightarrow> 'a \<Rightarrow> int \<Rightarrow> 'a list \<Rightarrow> bool" where
  "axis_spans start stop num ys =
     (length ys = nat num \<and> hd ys = start \<and> last ys = stop
      \<and> (if start < stop then sorted_wrt (<) ys else ys = replicate (nat num) start))"


text \<open>
  \<^verbatim>\<open>numpy.linspace\<close> in exact arithmetic, from its documentation: \<open>num\<close> evenly spaced
  samples over the closed interval, \<open>start + i * step\<close> with \<open>step = (stop - start) / (num - 1)\<close>
  and the last one set to \<open>stop\<close>; a negative \<open>num\<close> is a \<^verbatim>\<open>ValueError\<close>.
\<close>

definition linspace_exact :: "'a::linordered_field \<Rightarrow> 'a \<Rightarrow> int \<Rightarrow> exn + 'a list" where
  "linspace_exact start stop num =
     (if num < 0 then Inl ValueError
      else if num = 0 then Inr []
      else if num = 1 then Inr [start]
      else Inr (map (\<lambda>i. start + of_nat i * ((stop - start) / of_int (num - 1)))
                  [0..<nat num - 1] @ [stop]))"

section \<open>Ingest Loop\<close>

text \<open>
  One pass through the body of \<^verbatim>\<open>for lat, lon in weather_area\<close>, lines 65 to 93. The
  counter \<^verbatim>\<open>processed_data\<close> is a variable of \<^verbatim>\<open>main\<close>: the body takes it and returns it.
  \<^verbatim>\<open>continue\<close> ends the pass where it stands.
\<close>

definition loop_body ::
  "'f world \<Rightarrow> 'f \<times> 'f \<Rightarrow> int \<Rightarrow> 'f state \<Rightarrow> (exn + unit) \<times> int \<times> 'f state" where
  "loop_body w p processed_data st =
     (case get_current_weather w BASEURL (APIKEY w) (fst p) (snd p) [] st of
        (Inl e, st1) \<Rightarrow> (Inl e, processed_data, st1)
      | (Inr data, st1) \<Rightarrow>
          if data = PDict [] then
            (Inr (), processed_data,
             emit (Log ERROR ''Attempted to insert data of length 0 to mongoDB, skipping'' []) st1)
          else
            (case py_len data of
               Inl e \<Rightarrow> (Inl e, processed_data, st1)
             | Inr data_length \<Rightarrow>
                 let st2 = emit (Log DEBUG ''Api request finished for data of length {data_length}''
                               [PInt data_length]) st1
                 in (case insert_data_to_mongodb w ''weather-tracking-system'' ''open-weather-raw''
                            data 5 st2 of
                       (Inl e, data', st3) \<Rightarrow> (Inl e, processed_data, st3)
                     | (Inr result, data', st3) \<Rightarrow>
                         (let processed_data = processed_data + 1 in
                          if processed_data mod 25 = 0 then
                            (let st4 = emit (Log INFO
                                         ''Processed {processed_data} data to mongodb, continuing...''
                                         [PInt processed_data]) st3
                             in (case healthcheck w (HEALTHCHECK_URL w) st4 of
                                   (Inl e, st5) \<Rightarrow> (Inl e, processed_data, st5)
                                 | (Inr u, st5) \<Rightarrow>
                                     (Inr (), processed_data, emit (Sleep (3 / 2)) st5)))
                          else (Inr (), processed_data, emit (Sleep (3 / 2)) st3)))))"

fun for_points ::
  "'f world \<Rightarrow> ('f \<times> 'f) list \<Rightarrow> int \<Rightarrow> 'f state \<Rightarrow> (exn + unit) \<times> int \<times> 'f state" where
  "for_points w [] processed_data st = (Inr (), processed_data, st)"
| "for_points w (p # ps) processed_data st =
     (case loop_body w p processed_data st of
        (Inl e, processed_data', st') \<Rightarrow> (Inl e, processed_data', st')
      | (Inr u, processed_data', st') \<Rightarrow> for_points w ps processed_data' st')"

text \<open>
  \<^verbatim>\<open>while True\<close> has no exit but an exception. \<open>while_true n\<close> runs at most \<open>n\<close> sweeps of the
  grid: \<open>Some\<close> is the exception that ended the run, \<open>None\<close> says that the run is still going
  after \<open>n\<close> sweeps.
\<close>

fun while_true ::
  "nat \<Rightarrow> 'f world \<Rightarrow> ('f \<times> 'f) list \<Rightarrow> int \<Rightarrow> 'f state \<Rightarrow> (exn \<times> int \<times> 'f state) option" where
  "while_true 0 w weather_area processed_data st = None"
| "while_true (Suc n) w weather_area processed_data st =
     (case for_points w weather_area processed_data st of
        (Inl e, processed_data', st') \<Rightarrow> Some (e, processed_data', st')
      | (Inr u, processed_data', st') \<Rightarrow> while_true n w weather_area processed_data' st')"

text \<open>
  \<^verbatim>\<open>main\<close>, lines 48 to 93: the grid, the connection test (its failure is logged, whatever
  the exception), the loop. Building the \<^verbatim>\<open>MongoClient\<close> connects to nothing yet and is
  taken to succeed.
\<close>

definition main :: "nat \<Rightarrow> ('f::linorder) world \<Rightarrow> 'f state \<Rightarrow> (exn \<times> int \<times> 'f state) option" where
  "main n w st =
     (let processed_data = 0 in
      case get_grid_coordinates w (COORDINATES w) 8 st of
        (Inl e, st1) \<Rightarrow> Some (e, processed_data, st1)
      | (Inr weather_area, st1) \<Rightarrow>
          let st2 = emit (Log INFO ''Attempting to connect to MongoDB Server'' []) st1;
              st3 = emit Ping (emit (Log INFO ''Initiate connection test'' []) st2);
              st4 = (case ping w of
                       None \<Rightarrow> emit (Log INFO ''MongoDB connection successful!'' []) st3
                     | Some e \<Rightarrow> emit (LogException ''MongoDB Connection Failure!'' e) st3)
          in while_true n w weather_area processed_data st4)"

section \<open>Concrete inputs\<close>

text \<open>
  A run starts with no effect performed. The sample world answers every request with
  HTTP 200 and a small reading and stores every document; the theorems below change one
  answer at a time. Its decoder agrees with \<^verbatim>\<open>json.loads\<close> on the three JSON documents it
  lists and on the text \<^verbatim>\<open><html>\<close>, which is not JSON; it is used on these four texts only.
\<close>

definition init_state :: "'f state" where
  "init_state = \<lparr>trace = [], gets = 0, inserts = 0, clock_reads = 0\<rparr>"

definition sample_loads :: "string \<Rightarrow> rat pyval option" where
  \<open>sample_loads s =
     (if s = ''{}'' then Some (PDict [])
      else if s = ''{"temp": 300}'' then Some (PDict [(''temp'', PInt 300)])
      else if s = ''{"message": "city not found"}''
        then Some (PDict [(''message'', PStr ''city not found'')])
      else None)\<close>

definition sample_world :: "rat world" where
  \<open>sample_world =
     \<lparr>APIKEY = ''secret'',
      HEALTHCHECK_URL = ''https://hc.example/ping'',
      COORDINATES = [(2187184 / 1000000, 1176396 / 10000), (2066438 / 1000000, 1176396 / 10000),
                     (2066438 / 1000000, 117560116 / 1000000), (2187184 / 1000000, 117560116 / 1000000)],
      json_loads = sample_loads,
      linspace = linspace_exact,
      requests_get = (\<lambda>k. Responds \<lparr>status_code = 200, resp_text = ''{"temp": 300}''\<rparr>),
      insert_one = (\<lambda>k. Acknowledged),
      new_object_id = (\<lambda>k. 7000 + k),
      utc_now = (\<lambda>k. 1000 + k),
      ping = None\<rparr>\<close>

text \<open>
  The reading as the writer stamps it: \<^verbatim>\<open>processed_at\<close> and \<^verbatim>\<open>inserted_at\<close> set, the time
  being the one the clock gives at entry. The document the driver sends is \<open>sent\<close>: the
  stamped reading, with the \<^verbatim>\<open>_id\<close> of the first insert of the call when it had none. A store
  that asks for a reconnect \<open>k\<close> times and then accepts.
\<close>

definition stamped :: "'f world \<Rightarrow> 'f state \<Rightarrow> 'f pyval dict \<Rightarrow> 'f pyval dict" where
  "stamped w st d =
     dict_setitem ''inserted_at'' (PDatetime (utc_now w (clock_reads st)))
       (dict_setitem ''processed_at'' PNone d)"

definition sent :: "'f world \<Rightarrow> 'f state \<Rightarrow> 'f pyval dict \<Rightarrow> 'f pyval dict" where
  "sent w st d = ensure_id w (inserts st) (stamped w st d)"

definition flaky_store :: "nat \<Rightarrow> nat \<Rightarrow> insert_outcome" where
  "flaky_store k i = (if i < k then InsertRaises AutoReconnect else Acknowledged)"

text \<open>
  The state once the fetcher has sent its request: the debug line and the GET. A world
  whose every GET is answered with the same response, and one whose every GET raises.
\<close>

definition fetch_sent :: "'f world \<Rightarrow> 'f \<Rightarrow> 'f \<Rightarrow> 'f pyval dict \<Rightarrow> 'f state \<Rightarrow> 'f state" where
  "fetch_sent w lat lon query_dict st =
     st\<lparr>trace := trace st @
           [Log DEBUG ''Getting weather api data for {lat},{lon}'' [PFloat lat, PFloat lon],
            Get BASEURL
              (dict_merge [(''appid'', PStr (APIKEY w)), (''lat'', PFloat lat), (''lon'', PFloat lon)]
                 query_dict) None],
        gets := Suc (gets st)\<rparr>"

definition always_answers :: "response \<Rightarrow> rat world" where
  "always_answers r = sample_world\<lparr>requests_get := (\<lambda>k. Responds r)\<rparr>"

definition always_raises :: "exn \<Rightarrow> rat world" where
  "always_raises e = sample_world\<lparr>requests_get := (\<lambda>k. Raises e)\<rparr>"

section \<open>Facts about the effects\<close>

lemma emit_simps [simp]:
  "trace (emit e st) = trace st @ [e]"
  "gets (emit e st) = gets st"
  "inserts (emit e st) = inserts st"
  "clock_reads (emit e st) = clock_reads st"
  by (simp_all add: emit_def)

lemma sleeps_append: "sleeps (xs @ ys) = sleeps xs @ sleeps ys"
  by (simp add: sleeps_def)

lemma sleeps_retry_events:
  "sleeps (concat (map (retry_events db coll doc) xs)) = map (\<lambda>a. of_int ((a + 1) ^ 2)) xs"
  by (induction xs) (simp_all add: sleeps_def retry_events_def)

lemma squares_upto:
  "map (\<lambda>a. (of_int ((a + 1) ^ 2) :: rat)) [0..int k - 1] = map (\<lambda>n. of_nat (n ^ 2)) [1..<Suc k]"
proof (induction k)
  case 0
  then show ?case by simp
next
  case (Suc k)
  have "[0..int (Suc k) - 1] = [0..int k - 1] @ [int k]"
    using upto_rec2 [of 0 "int k"] by simp
  then show ?case using Suc by simp
qed

text \<open>
  The driver's \<^verbatim>\<open>_id\<close>: once the document has one it is left alone, so only the first
  insert of a call can change the document.
\<close>

lemma map_of_dict_setitem: "map_of (dict_setitem k v d) = (map_of d)(k \<mapsto> v)"
  by (induction d) (auto simp: fun_eq_iff)

lemma ensure_id_has_id: "map_of (ensure_id w k doc) ''_id'' \<noteq> None"
  by (simp add: ensure_id_def map_of_dict_setitem split: option.split)

lemma ensure_id_keeps: "map_of doc ''_id'' \<noteq> None \<Longrightarrow> ensure_id w k doc = doc"
  by (auto simp: ensure_id_def split: option.split)

lemma ensure_id_again [simp]: "ensure_id w j (ensure_id w k doc) = ensure_id w k doc"
  by (rule ensure_id_keeps) (rule ensure_id_has_id)

section \<open>The retry loop\<close>

lemma insert_attempts_first_id:
  "insert_attempts w db coll doc m (a # xs) st =
   insert_attempts w db coll (ensure_id w (inserts st) doc) m (a # xs) st"
  by (simp add: Let_def)

text \<open>
  A run of attempts that all fail with \<^verbatim>\<open>AutoReconnect\<close>, none of them the attempt
  \<open>max_retries - 1\<close> at which the loop gives up: each leaves its three effects and the loop
  goes on with the attempts that remain.
\<close>

lemma insert_attempts_retried:
  assumes "map_of doc ''_id'' \<noteq> None"
      and "\<forall>i<length xs. insert_one w (inserts st + i) = InsertRaises AutoReconnect"
      and "max_retries - 1 \<notin> set xs"
  shows "insert_attempts w db coll doc max_retries (xs @ ys) st =
         insert_attempts w db coll doc max_retries ys
           (st\<lparr>trace := trace st @ concat (map (retry_events db coll doc) xs),
               inserts := inserts st + length xs\<rparr>)"
  using assms(2,3)
proof (induction xs arbitrary: st)
  case Nil
  then show ?case by simp
next
  case (Cons a xs)
  let ?st1 = "emit (Sleep (of_int ((a + 1) ^ 2)))
                  (emit (Log WARNING
                     ''Mongo Connection Issues, currently on retry {attempt + 1}, pausing for {retry_pause} seconds before next try.''
                     [PInt (a + 1), PInt ((a + 1) ^ 2)])
                     ((emit (InsertOne db coll doc) st)\<lparr>inserts := Suc (inserts st)\<rparr>))"
  have same: "\<And>k. ensure_id w k doc = doc"
    using assms(1) by (rule ensure_id_keeps)
  from Cons.prems(1) have h0: "insert_one w (inserts st) = InsertRaises AutoReconnect"
    by force
  from Cons.prems(2) have ne: "a + 1 \<noteq> max_retries" by auto
  have step: "insert_attempts w db coll doc max_retries ((a # xs) @ ys) st =
        insert_attempts w db coll doc max_retries (xs @ ys) ?st1"
    using h0 ne by (simp add: Let_def same)
  have "\<forall>i<length xs. insert_one w (inserts ?st1 + i) = InsertRaises AutoReconnect"
  proof (intro allI impI)
    fix i assume "i < length xs"
    then have "Suc i < length (a # xs)" by simp
    with Cons.prems(1) have "insert_one w (inserts st + Suc i) = InsertRaises AutoReconnect"
      by blast
    then show "insert_one w (inserts ?st1 + i) = InsertRaises AutoReconnect" by simp
  qed
  moreover from Cons.prems(2) have "max_retries - 1 \<notin> set xs" by simp
  ultimately have "insert_attempts w db coll doc max_retries (xs @ ys) ?st1 =
         insert_attempts w db coll doc max_retries ys
           (?st1\<lparr>trace := trace ?st1 @ concat (map (retry_events db coll doc) xs),
               inserts := inserts ?st1 + length xs\<rparr>)"
    by (rule Cons.IH)
  also have "(?st1\<lparr>trace := trace ?st1 @ concat (map (retry_events db coll doc) xs),
               inserts := inserts ?st1 + length xs\<rparr>) =
       (st\<lparr>trace := trace st @ concat (map (retry_events db coll doc) (a # xs)),
               inserts := inserts st + length (a # xs)\<rparr>)"
    by (simp add: emit_def retry_events_def)
  finally show ?case using step by simp
qed

lemma insert_attempts_success_after:
  assumes "int k < max_retries"
      and "\<forall>i<k. insert_one w (inserts st + i) = InsertRaises AutoReconnect"
      and "insert_one w (inserts st + k) = Acknowledged"
  shows "insert_attempts w db coll doc max_retries [0..max_retries] st =
          (Inr (Some (InsertOneResult (doc_id (ensure_id w (inserts st) doc)))),
           ensure_id w (inserts st) doc,
           st\<lparr>trace := trace st
                  @ concat (map (retry_events db coll (ensure_id w (inserts st) doc)) [0..int k - 1])
                  @ [InsertOne db coll (ensure_id w (inserts st) doc),
                     Print (doc_id (ensure_id w (inserts st) doc))],
              inserts := inserts st + Suc k\<rparr>)"
proof -
  let ?doc = "ensure_id w (inserts st) doc"
  have "[0..max_retries] = 0 # [1..max_retries]"
    using assms(1) by (simp add: upto_rec1)
  then have first: "insert_attempts w db coll doc max_retries [0..max_retries] st =
                    insert_attempts w db coll ?doc max_retries [0..max_retries] st"
    using insert_attempts_first_id [of w db coll doc max_retries 0 "[1..max_retries]" st] by simp
  have split: "[0..max_retries] = [0..int k - 1] @ (int k # [int k + 1..max_retries])"
    using assms(1) upto_split3 [of 0 "int k" max_retries] by simp
  have notin: "max_retries - 1 \<notin> set [0..int k - 1]" using assms(1) by simp
  have fails: "\<forall>i<length [0..int k - 1]. insert_one w (inserts st + i) = InsertRaises AutoReconnect"
    using assms(2) by simp
  have "insert_attempts w db coll ?doc max_retries ([0..int k - 1] @ (int k # [int k + 1..max_retries])) st =
        insert_attempts w db coll ?doc max_retries (int k # [int k + 1..max_retries])
          (st\<lparr>trace := trace st @ concat (map (retry_events db coll ?doc) [0..int k - 1]),
              inserts := inserts st + length [0..int k - 1]\<rparr>)"
    by (rule insert_attempts_retried [OF ensure_id_has_id fails notin])
  also have "\<dots> = (Inr (Some (InsertOneResult (doc_id ?doc))), ?doc,
           st\<lparr>trace := trace st @ concat (map (retry_events db coll ?doc) [0..int k - 1])
                         @ [InsertOne db coll ?doc, Print (doc_id ?doc)],
              inserts := inserts st + Suc k\<rparr>)"
    using assms(3) by (simp add: emit_def Let_def)
  finally show ?thesis using first split by simp
qed

text \<open>
  C5. When the first \<open>k\<close> inserts of a call fail with \<^verbatim>\<open>AutoReconnect\<close>, the next one
  succeeds and \<open>k < max_retries\<close>, the call returns the result of insert number \<open>k + 1\<close>, and
  the pauses it has made are, in order, \<open>1, 4, 9, ..., k\<^sup>2\<close> seconds: the pause after the
  failed attempt number \<open>n\<close> (counting from 1) is \<open>n\<^sup>2\<close>. Each pause stands between the
  failed insert and the next one. With three failures and \<^verbatim>\<open>max_retries=5\<close> the call
  succeeds on the fourth insert after pauses of 1, 4 and 9 seconds.
\<close>

theorem persist_backoff_squares:
  assumes "int k < max_retries"
      and "\<forall>i<k. insert_one w (inserts st + i) = InsertRaises AutoReconnect"
      and "insert_one w (inserts st + k) = Acknowledged"
  shows "(let doc = sent w st d;
              st' = st\<lparr>trace := trace st
                         @ concat (map (retry_events database collection doc) [0..int k - 1])
                         @ [InsertOne database collection doc, Print (doc_id doc)],
                       inserts := inserts st + Suc k,
                       clock_reads := Suc (clock_reads st)\<rparr>
          in insert_data_to_mongodb w database collection (PDict d) max_retries st =
               (Inr (Some (InsertOneResult (doc_id doc))), PDict doc, st')
           \<and> sleeps (trace st') = sleeps (trace st) @ map (\<lambda>n. of_nat (n ^ 2)) [1..<Suc k])"
proof -
  let ?st1 = "st\<lparr>clock_reads := Suc (clock_reads st)\<rparr>"
  let ?doc = "sent w st d"
  have doc: "ensure_id w (inserts ?st1) (stamped w st d) = ?doc"
    by (simp add: sent_def)
  have "insert_attempts w database collection (stamped w st d) max_retries [0..max_retries] ?st1 =
          (Inr (Some (InsertOneResult (doc_id (ensure_id w (inserts ?st1) (stamped w st d))))),
           ensure_id w (inserts ?st1) (stamped w st d),
           ?st1\<lparr>trace := trace ?st1
                   @ concat (map (retry_events database collection
                                   (ensure_id w (inserts ?st1) (stamped w st d))) [0..int k - 1])
                   @ [InsertOne database collection (ensure_id w (inserts ?st1) (stamped w st d)),
                      Print (doc_id (ensure_id w (inserts ?st1) (stamped w st d)))],
              inserts := inserts ?st1 + Suc k\<rparr>)"
    using assms by (intro insert_attempts_success_after) simp_all
  then have run: "insert_data_to_mongodb w database collection (PDict d) max_retries st =
      (Inr (Some (InsertOneResult (doc_id ?doc))), PDict ?doc,
       st\<lparr>trace := trace st @ concat (map (retry_events database collection ?doc) [0..int k - 1])
                     @ [InsertOne database collection ?doc, Print (doc_id ?doc)],
          inserts := inserts st + Suc k,
          clock_reads := Suc (clock_reads st)\<rparr>)"
    unfolding doc by (simp add: insert_data_to_mongodb_def stamped_def Let_def)
  have "sleeps [InsertOne database collection ?doc, Print (doc_id ?doc)] = []"
    by (simp add: sleeps_def)
  then have pauses:
    "sleeps (trace st @ concat (map (retry_events database collection ?doc) [0..int k - 1])
               @ [InsertOne database collection ?doc, Print (doc_id ?doc)])
       = sleeps (trace st) @ map (\<lambda>n. of_nat (n ^ 2)) [1..<Suc k]"
    by (simp only: sleeps_append sleeps_retry_events squares_upto append_Nil2)
  show ?thesis
    unfolding Let_def using run pauses by simp
qed

theorem persist_backoff_squares_witness:
  "(case insert_data_to_mongodb (sample_world\<lparr>insert_one := flaky_store 3\<rparr>) ''db'' ''coll''
           (PDict [(''temp'', PInt 300)]) 5 init_state of
      (r, data', st') \<Rightarrow>
        r = Inr (Some (InsertOneResult (PObjectId 7000)))
        \<and> inserts st' = 4 \<and> sleeps (trace st') = [1, 4, 9])"
proof -
  have sq: "map (\<lambda>n. (of_nat (n ^ 2) :: rat)) [1..<Suc 3] = [1, 4, 9]"
    by (simp add: numeral_eq_Suc)
  have none: "sleeps (trace (init_state :: rat state)) = []"
    by (simp add: init_state_def sleeps_def)
  have id: "doc_id (sent (sample_world\<lparr>insert_one := flaky_store 3\<rparr>) init_state
                     [(''temp'', PInt 300)]) = PObjectId 7000"
    by (simp add: sent_def stamped_def ensure_id_def doc_id_def sample_world_def init_state_def)
  from persist_backoff_squares [where k = 3 and max_retries = 5
          and w = "sample_world\<lparr>insert_one := flaky_store 3\<rparr>"
          and st = init_state and d = "[(''temp'', PInt 300)]"
          and database = "''db''" and collection = "''coll''", unfolded sq none]
    id
  show ?thesis
    by (simp add: flaky_store_def Let_def init_state_def)
qed

lemma inserted_docs_append: "inserted_docs (xs @ ys) = inserted_docs xs @ inserted_docs ys"
  by (simp add: inserted_docs_def)

text \<open>
  Whatever the store answers, the loop sends the document it was given once that has its
  \<^verbatim>\<open>_id\<close>, hands it back, and does not read the clock.
\<close>

lemma insert_attempts_same_doc:
  assumes "map_of doc ''_id'' \<noteq> None"
  shows "\<exists>es. trace (snd (snd (insert_attempts w db coll doc m xs st))) = trace st @ es
        \<and> set (inserted_docs es) \<subseteq> {doc}
        \<and> fst (snd (insert_attempts w db coll doc m xs st)) = doc
        \<and> clock_reads (snd (snd (insert_attempts w db coll doc m xs st))) = clock_reads st"
proof (induction xs arbitrary: st)
  case Nil
  show ?case by (simp add: inserted_docs_def)
next
  case (Cons a xs)
  have same: "\<And>k. ensure_id w k doc = doc"
    using assms by (rule ensure_id_keeps)
  let ?st1 = "(emit (InsertOne db coll doc) st)\<lparr>inserts := Suc (inserts st)\<rparr>"
  let ?run = "insert_attempts w db coll doc m (a # xs) st"
  show ?case
  proof (cases "insert_one w (inserts st)")
    case Acknowledged
    then have "snd ?run = (doc, emit (Print (doc_id doc)) ?st1)"
      by (simp add: Let_def same)
    then show ?thesis
      by (simp add: inserted_docs_def)
  next
    case (InsertRaises e)
    show ?thesis
    proof (cases "e = AutoReconnect")
      case False
      with InsertRaises have "snd ?run = (doc, ?st1)"
        by (simp add: Let_def same)
      then show ?thesis by (simp add: inserted_docs_def)
    next
      case True
      show ?thesis
      proof (cases "a + 1 = m")
        case True
        with InsertRaises \<open>e = AutoReconnect\<close>
        have "snd ?run =
                (doc, emit (Log ERROR ''Max retries exceeded, mongodb reconnection has failed'' []) ?st1)"
          by (simp add: Let_def same)
        then show ?thesis by (simp add: inserted_docs_def)
      next
        case False
        let ?st2 = "emit (Sleep (of_int ((a + 1) ^ 2)))
                  (emit (Log WARNING
                     ''Mongo Connection Issues, currently on retry {attempt + 1}, pausing for {retry_pause} seconds before next try.''
                     [PInt (a + 1), PInt ((a + 1) ^ 2)]) ?st1)"
        let ?rest = "insert_attempts w db coll doc m xs ?st2"
        from False InsertRaises \<open>e = AutoReconnect\<close>
        have step: "?run = ?rest"
          by (simp add: Let_def same)
        from Cons.IH [of ?st2] obtain es where
          es: "trace (snd (snd ?rest)) = trace ?st2 @ es"
              "set (inserted_docs es) \<subseteq> {doc}"
              "fst (snd ?rest) = doc"
              "clock_reads (snd (snd ?rest)) = clock_reads ?st2"
          by blast
        have "trace ?st2 = trace st @ retry_events db coll doc a"
          by (simp add: retry_events_def)
        moreover have "inserted_docs (retry_events db coll doc a) = [doc]"
          by (simp add: retry_events_def inserted_docs_def)
        ultimately have "trace (snd (snd ?run)) = trace st @ (retry_events db coll doc a @ es)
            \<and> set (inserted_docs (retry_events db coll doc a @ es)) \<subseteq> {doc}
            \<and> fst (snd ?run) = doc
            \<and> clock_reads (snd (snd ?run)) = clock_reads st"
          using es step by (simp add: inserted_docs_append)
        then show ?thesis by blast
      qed
    qed
  qed
qed

lemma map_of_sent:
  "map_of (sent w st d) ''processed_at'' = Some PNone"
  "map_of (sent w st d) ''inserted_at'' = Some (PDatetime (utc_now w (clock_reads st)))"
  "k \<noteq> ''processed_at'' \<Longrightarrow> k \<noteq> ''inserted_at'' \<Longrightarrow> k \<noteq> ''_id'' \<Longrightarrow>
     map_of (sent w st d) k = map_of d k"
  "map_of d ''_id'' \<noteq> None \<Longrightarrow> map_of (sent w st d) ''_id'' = map_of d ''_id''"
  by (auto simp: sent_def stamped_def ensure_id_def map_of_dict_setitem split: option.split)

text \<open>
  C8 (amended). Every document a call of the writer sends to the store is one and the same:
  the reading with \<^verbatim>\<open>processed_at\<close> set to \<^verbatim>\<open>None\<close>, \<^verbatim>\<open>inserted_at\<close> set to the time the
  clock gave at entry, before the first insert, and the \<^verbatim>\<open>_id\<close> the driver gave it at the
  first insert if it had none. The clock is read once in the call, however many attempts
  follow, and the caller's reading ends as that document (as the stamped reading when
  \<^verbatim>\<open>max_retries\<close> is negative and nothing is sent). Every key other than these three keeps
  the value it had, and so does an \<^verbatim>\<open>_id\<close> the reading came with.
\<close>

theorem persist_metadata:
  "(case insert_data_to_mongodb w database collection (PDict d) max_retries st of
      (r, data', st') \<Rightarrow>
        (\<exists>es. trace st' = trace st @ es \<and> set (inserted_docs es) \<subseteq> {sent w st d})
        \<and> data' = PDict (if max_retries < 0 then stamped w st d else sent w st d)
        \<and> clock_reads st' = Suc (clock_reads st))
   \<and> map_of (sent w st d) ''processed_at'' = Some PNone
   \<and> map_of (sent w st d) ''inserted_at'' = Some (PDatetime (utc_now w (clock_reads st)))
   \<and> (\<forall>k. k \<noteq> ''processed_at'' \<and> k \<noteq> ''inserted_at'' \<and> k \<noteq> ''_id''
          \<longrightarrow> map_of (sent w st d) k = map_of d k)
   \<and> (map_of d ''_id'' \<noteq> None \<longrightarrow> map_of (sent w st d) ''_id'' = map_of d ''_id'')"
proof -
  let ?st1 = "st\<lparr>clock_reads := Suc (clock_reads st)\<rparr>"
  let ?run = "insert_attempts w database collection (stamped w st d) max_retries [0..max_retries] ?st1"
  have call: "insert_data_to_mongodb w database collection (PDict d) max_retries st =
        (fst ?run, PDict (fst (snd ?run)), snd (snd ?run))"
    by (simp add: insert_data_to_mongodb_def stamped_def Let_def split_beta)
  have loop: "(\<exists>es. trace (snd (snd ?run)) = trace st @ es \<and> set (inserted_docs es) \<subseteq> {sent w st d})
        \<and> fst (snd ?run) = (if max_retries < 0 then stamped w st d else sent w st d)
        \<and> clock_reads (snd (snd ?run)) = Suc (clock_reads st)"
  proof (cases "max_retries < 0")
    case True
    then show ?thesis by (simp add: inserted_docs_def)
  next
    case False
    then have "[0..max_retries] = 0 # [1..max_retries]" by (simp add: upto_rec1)
    then have first: "?run =
        insert_attempts w database collection (sent w st d) max_retries [0..max_retries] ?st1"
      using insert_attempts_first_id
              [of w database collection "stamped w st d" max_retries 0 "[1..max_retries]" ?st1]
      by (simp add: sent_def)
    have "map_of (sent w st d) ''_id'' \<noteq> None"
      unfolding sent_def by (rule ensure_id_has_id)
    from insert_attempts_same_doc [OF this, of w database collection max_retries "[0..max_retries]" ?st1]
    show ?thesis using False first by auto
  qed
  have first: "(case insert_data_to_mongodb w database collection (PDict d) max_retries st of
      (r, data', st') \<Rightarrow>
        (\<exists>es. trace st' = trace st @ es \<and> set (inserted_docs es) \<subseteq> {sent w st d})
        \<and> data' = PDict (if max_retries < 0 then stamped w st d else sent w st d)
        \<and> clock_reads st' = Suc (clock_reads st))"
    unfolding call using loop by simp
  show ?thesis
    using first map_of_sent [where w = w and st = st and d = d] by blast
qed

theorem persist_metadata_witness:
  "(case insert_data_to_mongodb (sample_world\<lparr>insert_one := flaky_store 2\<rparr>) ''db'' ''coll''
           (PDict [(''temp'', PInt 300), (''inserted_at'', PStr ''old'')]) 5 init_state of
      (r, data', st') \<Rightarrow>
        r = Inr (Some (InsertOneResult (PObjectId 7000)))
        \<and> inserted_docs (trace st') =
            [[(''temp'', PInt 300), (''inserted_at'', PDatetime 1000), (''processed_at'', PNone),
              (''_id'', PObjectId 7000)],
             [(''temp'', PInt 300), (''inserted_at'', PDatetime 1000), (''processed_at'', PNone),
              (''_id'', PObjectId 7000)],
             [(''temp'', PInt 300), (''inserted_at'', PDatetime 1000), (''processed_at'', PNone),
              (''_id'', PObjectId 7000)]]
        \<and> data' = PDict [(''temp'', PInt 300), (''inserted_at'', PDatetime 1000),
                          (''processed_at'', PNone), (''_id'', PObjectId 7000)]
        \<and> clock_reads st' = 1)"
  using persist_metadata [where w = "sample_world\<lparr>insert_one := flaky_store 2\<rparr>"
          and database = "''db''" and collection = "''coll''"
          and d = "[(''temp'', PInt 300), (''inserted_at'', PStr ''old'')]"
          and max_retries = 5 and st = init_state]
  by (simp add: insert_data_to_mongodb_def flaky_store_def init_state_def sample_world_def
        Let_def inserted_docs_def emit_def stamped_def sent_def ensure_id_def doc_id_def
        upto_rec1)

text \<open>
  C8 as stated fails: the reading \<^verbatim>\<open>{"temp": 300}\<close> comes back from a successful call with a
  third new key, \<^verbatim>\<open>_id\<close>, which the driver's \<^verbatim>\<open>insert_one\<close> stored in the caller's dict.
\<close>

theorem persist_adds_id_to_reading:
  "insert_data_to_mongodb sample_world ''db'' ''coll'' (PDict [(''temp'', PInt 300)]) 5 init_state =
     (Inr (Some (InsertOneResult (PObjectId 7000))),
      PDict [(''temp'', PInt 300), (''processed_at'', PNone), (''inserted_at'', PDatetime 1000),
             (''_id'', PObjectId 7000)],
      \<lparr>trace = [InsertOne ''db'' ''coll''
                  [(''temp'', PInt 300), (''processed_at'', PNone),
                   (''inserted_at'', PDatetime 1000), (''_id'', PObjectId 7000)],
                Print (PObjectId 7000)],
       gets = 0, inserts = 1, clock_reads = 1\<rparr>)"
  by (simp add: insert_data_to_mongodb_def init_state_def sample_world_def Let_def emit_def
        ensure_id_def doc_id_def upto_rec1)

text \<open>
  C1. With \<^verbatim>\<open>max_retries=0\<close> and a store that always asks for a reconnect, the writer
  makes one insert, warns, pauses for one second and returns \<^verbatim>\<open>None\<close>: it raises
  nothing and has no identifier to return. The test \<^verbatim>\<open>attempt + 1 == max_retries\<close> is never
  true in the one pass of \<^verbatim>\<open>range(1)\<close>.
\<close>

theorem persist_zero_retries_returns_none:
  "insert_data_to_mongodb (sample_world\<lparr>insert_one := (\<lambda>k. InsertRaises AutoReconnect)\<rparr>)
       ''db'' ''coll'' (PDict [(''temp'', PInt 300)]) 0 init_state =
     (Inr None,
      PDict [(''temp'', PInt 300), (''processed_at'', PNone), (''inserted_at'', PDatetime 1000),
             (''_id'', PObjectId 7000)],
      \<lparr>trace = [InsertOne ''db'' ''coll''
                  [(''temp'', PInt 300), (''processed_at'', PNone),
                   (''inserted_at'', PDatetime 1000), (''_id'', PObjectId 7000)],
                Log WARNING
                  ''Mongo Connection Issues, currently on retry {attempt + 1}, pausing for {retry_pause} seconds before next try.''
                  [PInt 1, PInt 1],
                Sleep 1],
       gets = 0, inserts = 1, clock_reads = 1\<rparr>)"
  by (simp add: insert_data_to_mongodb_def init_state_def sample_world_def Let_def emit_def
        ensure_id_def)

text \<open>
  With \<open>max_retries \<ge> 1\<close> and a store that keeps asking for a reconnect, the loop gives up
  at the attempt number \<open>max_retries\<close> and raises the \<^verbatim>\<open>AutoReconnect\<close> it caught.
\<close>

lemma insert_attempts_exhausted:
  assumes "1 \<le> max_retries"
      and "\<forall>i<nat max_retries. insert_one w (inserts st + i) = InsertRaises AutoReconnect"
  shows "insert_attempts w db coll doc max_retries [0..max_retries] st =
          (Inl AutoReconnect, ensure_id w (inserts st) doc,
           st\<lparr>trace := trace st
                  @ concat (map (retry_events db coll (ensure_id w (inserts st) doc))
                              [0..max_retries - 2])
                  @ [InsertOne db coll (ensure_id w (inserts st) doc),
                     Log ERROR ''Max retries exceeded, mongodb reconnection has failed'' []],
              inserts := inserts st + nat max_retries\<rparr>)"
proof -
  let ?doc = "ensure_id w (inserts st) doc"
  have "[0..max_retries] = 0 # [1..max_retries]"
    using assms(1) by (simp add: upto_rec1)
  then have first: "insert_attempts w db coll doc max_retries [0..max_retries] st =
                    insert_attempts w db coll ?doc max_retries [0..max_retries] st"
    using insert_attempts_first_id [of w db coll doc max_retries 0 "[1..max_retries]" st] by simp
  have split: "[0..max_retries] = [0..max_retries - 2] @ ((max_retries - 1) # [max_retries..max_retries])"
    using assms(1) upto_split3 [of 0 "max_retries - 1" max_retries] by simp
  have notin: "max_retries - 1 \<notin> set [0..max_retries - 2]" by simp
  have fails: "\<forall>i<length [0..max_retries - 2]. insert_one w (inserts st + i) = InsertRaises AutoReconnect"
    using assms by simp
  have last: "insert_one w (inserts st + nat (max_retries - 1)) = InsertRaises AutoReconnect"
    using assms by simp
  have count: "Suc (inserts st + nat (max_retries - 1)) = inserts st + nat max_retries"
    using assms(1) by simp
  have "insert_attempts w db coll ?doc max_retries
          ([0..max_retries - 2] @ ((max_retries - 1) # [max_retries..max_retries])) st =
        insert_attempts w db coll ?doc max_retries ((max_retries - 1) # [max_retries..max_retries])
          (st\<lparr>trace := trace st @ concat (map (retry_events db coll ?doc) [0..max_retries - 2]),
              inserts := inserts st + length [0..max_retries - 2]\<rparr>)"
    by (rule insert_attempts_retried [OF ensure_id_has_id fails notin])
  also have "\<dots> = (Inl AutoReconnect, ?doc,
           st\<lparr>trace := trace st @ concat (map (retry_events db coll ?doc) [0..max_retries - 2])
                         @ [InsertOne db coll ?doc,
                            Log ERROR ''Max retries exceeded, mongodb reconnection has failed'' []],
              inserts := inserts st + nat max_retries\<rparr>)"
    using last count by (simp add: emit_def Let_def)
  finally show ?thesis using first split by simp
qed

section \<open>The fetcher\<close>

text \<open>Merging two dicts: on a key of both, the value of the second stands.\<close>

lemma map_of_dict_merge:
  "distinct (map fst b) \<Longrightarrow> map_of (dict_merge a b) = map_of a ++ map_of b"
proof (induction b arbitrary: a)
  case Nil
  show ?case by simp
next
  case (Cons p b)
  obtain k v where p: "p = (k, v)" by (cases p)
  from Cons.prems p have fresh: "map_of b k = None" and rest: "distinct (map fst b)"
    by (auto simp: map_of_eq_None_iff)
  have "map_of (dict_merge a (p # b)) = map_of (dict_merge (dict_setitem k v a) b)"
    by (simp add: p)
  also have "\<dots> = map_of (dict_setitem k v a) ++ map_of b"
    by (rule Cons.IH [OF rest])
  also have "\<dots> = (map_of a)(k \<mapsto> v) ++ map_of b"
    by (simp only: map_of_dict_setitem)
  also have "\<dots> = map_of a ++ map_of (p # b)"
    using fresh by (auto simp: p map_add_def fun_eq_iff split: option.splits)
  finally show ?case .
qed

lemma get_current_weather_cases:
  "get_current_weather w url appid lat lon query_dict st =
     (case requests_get w (gets st) of
        Raises e \<Rightarrow> (Inl e, fetch_sent w lat lon query_dict st)
      | Responds response \<Rightarrow>
          (case json_loads w (resp_text response) of
             None \<Rightarrow> (Inl JSONDecodeError, fetch_sent w lat lon query_dict st)
           | Some resp_dict \<Rightarrow>
               if status_code response = 200 then
                 (Inr resp_dict,
                  emit (Log DEBUG ''Api call successful!'' []) (fetch_sent w lat lon query_dict st))
               else
                 (case getitem resp_dict ''message'' of
                    Inl e \<Rightarrow> (Inl e, fetch_sent w lat lon query_dict st)
                  | Inr errmsg \<Rightarrow>
                      (Inr (PDict []),
                       emit (Log ERROR ''API Error with with message :{errmsg} code {status_code}''
                               [errmsg, PInt (status_code response)])
                         (fetch_sent w lat lon query_dict st)))))"
  by (simp add: get_current_weather_def fetch_sent_def emit_def Let_def
        split: http_outcome.split option.split sum.split)

text \<open>
  C3 (amended). For every response with a status other than 200 whose body decodes to a
  JSON object that has the key \<^verbatim>\<open>message\<close>, the fetcher logs that message with the status
  code and returns the empty marker \<^verbatim>\<open>{}\<close>; it raises nothing.
\<close>

theorem fetch_non_200_with_message:
  assumes "requests_get w (gets st) = Responds response"
      and "status_code response \<noteq> 200"
      and "json_loads w (resp_text response) = Some (PDict d)"
      and "map_of d ''message'' = Some errmsg"
  shows "get_current_weather w url appid lat lon query_dict st =
           (Inr (PDict []),
            emit (Log ERROR ''API Error with with message :{errmsg} code {status_code}''
                    [errmsg, PInt (status_code response)])
              (fetch_sent w lat lon query_dict st))"
  using assms by (simp add: get_current_weather_cases getitem_def)

theorem fetch_non_200_with_message_witness:
  \<open>get_current_weather
      (always_answers \<lparr>status_code = 404, resp_text = ''{"message": "city not found"}''\<rparr>)
      BASEURL ''secret'' 1 2 [] init_state =
     (Inr (PDict []),
      \<lparr>trace = [Log DEBUG ''Getting weather api data for {lat},{lon}'' [PFloat 1, PFloat 2],
                Get ''https://api.openweathermap.org/data/2.5/weather''
                  [(''appid'', PStr ''secret''), (''lat'', PFloat 1), (''lon'', PFloat 2)] None,
                Log ERROR ''API Error with with message :{errmsg} code {status_code}''
                  [PStr ''city not found'', PInt 404]],
       gets = 1, inserts = 0, clock_reads = 0\<rparr>)\<close>
  using fetch_non_200_with_message
    [where w = \<open>always_answers \<lparr>status_code = 404, resp_text = ''{"message": "city not found"}''\<rparr>\<close>
       and st = init_state
       and response = \<open>\<lparr>status_code = 404, resp_text = ''{"message": "city not found"}''\<rparr>\<close>
       and d = "[(''message'', PStr ''city not found'')]" and errmsg = "PStr ''city not found''"
       and url = BASEURL and appid = "''secret''" and lat = 1 and lon = 2 and query_dict = "[]"]
  by (simp add: always_answers_def sample_world_def sample_loads_def init_state_def
        fetch_sent_def emit_def BASEURL_def)

text \<open>
  C3 as stated fails: a 404 whose body is the JSON object \<^verbatim>\<open>{}\<close> has no \<^verbatim>\<open>message\<close>, and
  \<^verbatim>\<open>resp_dict["message"]\<close> raises \<^verbatim>\<open>KeyError\<close> to the caller; nothing is logged and no
  marker is returned.
\<close>

theorem fetch_non_200_without_message_raises:
  "get_current_weather (always_answers \<lparr>status_code = 404, resp_text = ''{}''\<rparr>)
      BASEURL ''secret'' 1 2 [] init_state =
     (Inl (KeyError ''message''),
      \<lparr>trace = [Log DEBUG ''Getting weather api data for {lat},{lon}'' [PFloat 1, PFloat 2],
                Get ''https://api.openweathermap.org/data/2.5/weather''
                  [(''appid'', PStr ''secret''), (''lat'', PFloat 1), (''lon'', PFloat 2)] None],
       gets = 1, inserts = 0, clock_reads = 0\<rparr>)"
  by (simp add: get_current_weather_cases always_answers_def sample_world_def sample_loads_def
        init_state_def fetch_sent_def getitem_def BASEURL_def)

text \<open>
  C7. Called with an endpoint and a key of its own, the fetcher still sends its GET to
  \<^verbatim>\<open>BASEURL\<close> with \<^verbatim>\<open>appid\<close> set to the global \<^verbatim>\<open>APIKEY\<close> (here \<^verbatim>\<open>secret\<close>). The merge with the
  extra parameters is as described: \<^verbatim>\<open>lat\<close> is overridden, \<^verbatim>\<open>units\<close> is added.
\<close>

theorem fetch_ignores_url_and_appid:
  "get_current_weather sample_world ''http://localhost:8080/weather'' ''other-key'' 1 2
      [(''units'', PStr ''metric''), (''lat'', PFloat 5)] init_state =
     (Inr (PDict [(''temp'', PInt 300)]),
      \<lparr>trace = [Log DEBUG ''Getting weather api data for {lat},{lon}'' [PFloat 1, PFloat 2],
                Get ''https://api.openweathermap.org/data/2.5/weather''
                  [(''appid'', PStr ''secret''), (''lat'', PFloat 5), (''lon'', PFloat 2),
                   (''units'', PStr ''metric'')] None,
                Log DEBUG ''Api call successful!'' []],
       gets = 1, inserts = 0, clock_reads = 0\<rparr>)"
  by (simp add: get_current_weather_cases sample_world_def sample_loads_def
        init_state_def fetch_sent_def emit_def BASEURL_def)

section \<open>The liveness ping\<close>

text \<open>
  C9 (amended). When the GET gets a response, of any status, or raises an exception of
  class \<^verbatim>\<open>requests.RequestException\<close> (a failed connection, a timeout), \<^verbatim>\<open>healthcheck\<close>
  returns normally. It has sent exactly one GET, to the given URL with a timeout of 10
  seconds, and the failure is logged and not retried.
\<close>

theorem healthcheck_catches_request_exceptions:
  assumes "requests_get w (gets st) = Responds response
           \<or> requests_get w (gets st) = Raises (RequestException msg)"
  shows "healthcheck w hcurl st =
     (Inr (),
      st\<lparr>trace := trace st @ Get hcurl [] (Some 10) #
             (case requests_get w (gets st) of
                Responds response \<Rightarrow> []
              | Raises e \<Rightarrow> [LogException ''Health check ping failure'' e]),
         gets := Suc (gets st)\<rparr>)"
  using assms by (auto simp: healthcheck_def emit_def Let_def)

theorem healthcheck_catches_request_exceptions_witness:
  "healthcheck (always_raises (RequestException ''connection timed out''))
       ''https://hc.example/ping'' init_state =
     (Inr (),
      \<lparr>trace = [Get ''https://hc.example/ping'' [] (Some 10),
                LogException ''Health check ping failure''
                  (RequestException ''connection timed out'')],
       gets = 1, inserts = 0, clock_reads = 0\<rparr>)
   \<and> healthcheck sample_world ''https://hc.example/ping'' init_state =
     (Inr (),
      \<lparr>trace = [Get ''https://hc.example/ping'' [] (Some 10)],
       gets = 1, inserts = 0, clock_reads = 0\<rparr>)"
  using healthcheck_catches_request_exceptions
          [where w = "always_raises (RequestException ''connection timed out'')"
             and st = init_state and msg = "''connection timed out''"
             and hcurl = "''https://hc.example/ping''"]
        healthcheck_catches_request_exceptions
          [where w = sample_world and st = init_state
             and response = \<open>\<lparr>status_code = 200, resp_text = ''{"temp": 300}''\<rparr>\<close>
             and hcurl = "''https://hc.example/ping''"]
  by (simp add: always_raises_def sample_world_def init_state_def)

text \<open>
  C9 as stated fails: when the GET raises an exception of another class (urllib3's
  \<^verbatim>\<open>LocationParseError\<close> comes out of \<^verbatim>\<open>requests.get\<close> unwrapped for a host name with an
  empty label), the \<^verbatim>\<open>except\<close> clause does not match and \<^verbatim>\<open>healthcheck\<close> raises it to its
  caller, with nothing logged.
\<close>

theorem healthcheck_raises_other_exception:
  "healthcheck (always_raises (OtherException ''LocationParseError''))
       ''http://a..b/ping'' init_state =
     (Inl (OtherException ''LocationParseError''),
      \<lparr>trace = [Get ''http://a..b/ping'' [] (Some 10)],
       gets = 1, inserts = 0, clock_reads = 0\<rparr>)"
  by (simp add: healthcheck_def always_raises_def sample_world_def init_state_def emit_def)

section \<open>The loop\<close>

lemma fetch_sent_simps [simp]:
  "gets (fetch_sent w lat lon q st) = Suc (gets st)"
  "inserts (fetch_sent w lat lon q st) = inserts st"
  "clock_reads (fetch_sent w lat lon q st) = clock_reads st"
  "sleeps (trace (fetch_sent w lat lon q st)) = sleeps (trace st)"
  by (simp_all add: fetch_sent_def sleeps_def)

lemma sleeps_emit_log [simp]:
  "sleeps (trace st @ [Log lvl msg args]) = sleeps (trace st)"
  by (simp add: sleeps_def)


lemma fetch_keeps_inserts:
  "inserts (snd (get_current_weather w url appid lat lon q st)) = inserts st"
  by (simp add: get_current_weather_cases split: http_outcome.split option.split sum.split)

lemma insert_attempts_inserts_mono:
  "inserts st \<le> inserts (snd (snd (insert_attempts w db coll doc m xs st)))"
proof (induction xs arbitrary: st doc)
  case Nil
  show ?case by simp
next
  case (Cons a xs)
  let ?doc = "ensure_id w (inserts st) doc"
  let ?st2 = "emit (Sleep (of_int ((a + 1) ^ 2)))
                  (emit (Log WARNING
                     ''Mongo Connection Issues, currently on retry {attempt + 1}, pausing for {retry_pause} seconds before next try.''
                     [PInt (a + 1), PInt ((a + 1) ^ 2)])
                     ((emit (InsertOne db coll ?doc) st)\<lparr>inserts := Suc (inserts st)\<rparr>))"
  have "inserts ?st2 \<le> inserts (snd (snd (insert_attempts w db coll ?doc m xs ?st2)))"
    by (rule Cons.IH)
  then have "inserts st \<le> inserts (snd (snd (insert_attempts w db coll ?doc m xs ?st2)))"
    by simp
  then show ?case
    by (simp add: Let_def split: insert_outcome.split)
qed

lemma insert_attempts_inserts_first:
  "inserts st < inserts (snd (snd (insert_attempts w db coll doc m (a # xs) st)))"
proof -
  let ?doc = "ensure_id w (inserts st) doc"
  let ?st2 = "emit (Sleep (of_int ((a + 1) ^ 2)))
                  (emit (Log WARNING
                     ''Mongo Connection Issues, currently on retry {attempt + 1}, pausing for {retry_pause} seconds before next try.''
                     [PInt (a + 1), PInt ((a + 1) ^ 2)])
                     ((emit (InsertOne db coll ?doc) st)\<lparr>inserts := Suc (inserts st)\<rparr>))"
  have "inserts ?st2 \<le> inserts (snd (snd (insert_attempts w db coll ?doc m xs ?st2)))"
    by (rule insert_attempts_inserts_mono)
  then have "inserts st < inserts (snd (snd (insert_attempts w db coll ?doc m xs ?st2)))"
    by simp
  then show ?thesis
    by (simp add: Let_def split: insert_outcome.split)
qed

lemma persist_returns_after_insert:
  assumes "insert_data_to_mongodb w db coll data 5 st = (Inr res, data', st')"
  shows "inserts st < inserts st'"
proof (cases data)
  case (PDict d)
  let ?st1 = "st\<lparr>clock_reads := Suc (clock_reads st)\<rparr>"
  have "[0..5] = 0 # [1..5]" by (simp add: upto_rec1)
  then have "inserts ?st1 <
      inserts (snd (snd (insert_attempts w db coll (stamped w st d) 5 [0..5] ?st1)))"
    using insert_attempts_inserts_first [of ?st1 w db coll "stamped w st d" 5 0 "[1..5]"] by simp
  moreover have "st' = snd (snd (insert_attempts w db coll (stamped w st d) 5 [0..5] ?st1))"
    using assms PDict by (simp add: insert_data_to_mongodb_def stamped_def Let_def split_beta)
  ultimately show ?thesis by simp
qed (use assms in \<open>simp_all add: insert_data_to_mongodb_def\<close>)

lemma healthcheck_inserts [simp]:
  "inserts (snd (healthcheck w hcurl st)) = inserts st"
  by (simp add: healthcheck_def Let_def emit_def split: http_outcome.split exn.split)







text \<open>
  C4 (amended). For every HTTP 200 response whose body decodes to a value other than the
  empty object \<^verbatim>\<open>{}\<close>, the fetcher returns the decoded body as it is, and the loop does not
  skip it: a pass that ends normally has counted the point and has made at least one insert.
\<close>

theorem fetch_200_nonempty_not_skipped:
  assumes "requests_get w (gets st) = Responds response"
      and "status_code response = 200"
      and "json_loads w (resp_text response) = Some resp_dict"
      and "resp_dict \<noteq> PDict []"
  shows "get_current_weather w url appid lat lon query_dict st =
           (Inr resp_dict,
            emit (Log DEBUG ''Api call successful!'' []) (fetch_sent w lat lon query_dict st))
       \<and> (case loop_body w p processed_data st of
            (r, processed_data', st') \<Rightarrow>
              r = Inr () \<longrightarrow> processed_data' = processed_data + 1 \<and> inserts st < inserts st')"
proof -
  let ?st1 = "emit (Log DEBUG ''Api call successful!'' []) (fetch_sent w (fst p) (snd p) [] st)"
  have fetch: "\<And>url appid lat lon query_dict.
      get_current_weather w url appid lat lon query_dict st =
           (Inr resp_dict,
            emit (Log DEBUG ''Api call successful!'' []) (fetch_sent w lat lon query_dict st))"
    using assms(1,2,3) by (simp add: get_current_weather_cases)
  have "(case loop_body w p processed_data st of
            (r, processed_data', st') \<Rightarrow>
              r = Inr () \<longrightarrow> processed_data' = processed_data + 1 \<and> inserts st < inserts st')"
  proof (cases "py_len resp_dict")
    case (Inl e)
    with fetch assms(4) show ?thesis by (simp add: loop_body_def)
  next
    case len: (Inr data_length)
    let ?st2 = "emit (Log DEBUG ''Api request finished for data of length {data_length}''
                               [PInt data_length]) ?st1"
    obtain ri data' st3 where persist:
      "insert_data_to_mongodb w ''weather-tracking-system'' ''open-weather-raw'' resp_dict 5 ?st2
         = (ri, data', st3)"
      by (cases "insert_data_to_mongodb w ''weather-tracking-system'' ''open-weather-raw'' resp_dict 5 ?st2") auto
    show ?thesis
    proof (cases ri)
      case (Inl e)
      with fetch assms(4) len persist show ?thesis by (simp add: loop_body_def)
    next
      case res: (Inr result)
      from persist_returns_after_insert [OF persist [unfolded res]]
      have more: "inserts st < inserts st3" by simp
      show ?thesis
      proof (cases "(processed_data + 1) mod 25 = 0")
        case False
        with fetch assms(4) len persist res more show ?thesis
          by (simp add: loop_body_def Let_def)
      next
        case True
        let ?st4 = "emit (Log INFO ''Processed {processed_data} data to mongodb, continuing...''
                                   [PInt (processed_data + 1)]) st3"
        obtain rh st5 where hc: "healthcheck w (HEALTHCHECK_URL w) ?st4 = (rh, st5)"
          by (cases "healthcheck w (HEALTHCHECK_URL w) ?st4") auto
        have "inserts st5 = inserts st3"
          using healthcheck_inserts [of w "HEALTHCHECK_URL w" ?st4] hc by simp
        with True fetch assms(4) len persist res more hc show ?thesis
          by (cases rh) (simp_all add: loop_body_def Let_def)
      qed
    qed
  qed
  with fetch show ?thesis by blast
qed

theorem fetch_200_nonempty_not_skipped_witness:
  \<open>get_current_weather sample_world BASEURL ''secret'' 1 2 [] init_state =
     (Inr (PDict [(''temp'', PInt 300)]),
      \<lparr>trace = [Log DEBUG ''Getting weather api data for {lat},{lon}'' [PFloat 1, PFloat 2],
                Get ''https://api.openweathermap.org/data/2.5/weather''
                  [(''appid'', PStr ''secret''), (''lat'', PFloat 1), (''lon'', PFloat 2)] None,
                Log DEBUG ''Api call successful!'' []],
       gets = 1, inserts = 0, clock_reads = 0\<rparr>)
   \<and> fst (loop_body sample_world (1, 2) 0 init_state) = Inr ()
   \<and> fst (snd (loop_body sample_world (1, 2) 0 init_state)) = 1
   \<and> inserts (snd (snd (loop_body sample_world (1, 2) 0 init_state))) = 1\<close>
  using fetch_200_nonempty_not_skipped
    [where w = sample_world and st = init_state
       and response = \<open>\<lparr>status_code = 200, resp_text = ''{"temp": 300}''\<rparr>\<close>
       and resp_dict = "PDict [(''temp'', PInt 300)]"
       and url = BASEURL and appid = "''secret''" and lat = 1 and lon = 2 and query_dict = "[]"
       and p = "(1, 2)" and processed_data = 0]
  by (simp add: loop_body_def get_current_weather_cases sample_world_def
        sample_loads_def init_state_def fetch_sent_def BASEURL_def emit_def py_len_def
        insert_data_to_mongodb_def Let_def upto_rec1 ensure_id_def doc_id_def)

text \<open>
  C4 as stated fails: for an HTTP 200 response with the body \<^verbatim>\<open>{}\<close> the fetcher returns the
  decoded body, which is the empty marker itself, and the loop logs that it skips the point
  and inserts nothing.
\<close>

theorem empty_200_reading_is_skipped:
  \<open>get_current_weather (always_answers \<lparr>status_code = 200, resp_text = ''{}''\<rparr>)
       BASEURL ''secret'' 1 2 [] init_state =
     (Inr (PDict []),
      \<lparr>trace = [Log DEBUG ''Getting weather api data for {lat},{lon}'' [PFloat 1, PFloat 2],
                Get ''https://api.openweathermap.org/data/2.5/weather''
                  [(''appid'', PStr ''secret''), (''lat'', PFloat 1), (''lon'', PFloat 2)] None,
                Log DEBUG ''Api call successful!'' []],
       gets = 1, inserts = 0, clock_reads = 0\<rparr>)
   \<and> loop_body (always_answers \<lparr>status_code = 200, resp_text = ''{}''\<rparr>) (1, 2) 0 init_state =
     (Inr (), 0,
      \<lparr>trace = [Log DEBUG ''Getting weather api data for {lat},{lon}'' [PFloat 1, PFloat 2],
                Get ''https://api.openweathermap.org/data/2.5/weather''
                  [(''appid'', PStr ''secret''), (''lat'', PFloat 1), (''lon'', PFloat 2)] None,
                Log DEBUG ''Api call successful!'' [],
                Log ERROR ''Attempted to insert data of length 0 to mongoDB, skipping'' []],
       gets = 1, inserts = 0, clock_reads = 0\<rparr>)\<close>
  by (simp add: loop_body_def get_current_weather_cases always_answers_def sample_world_def
        sample_loads_def init_state_def fetch_sent_def BASEURL_def emit_def)

section \<open>The grid\<close>

lemma py_min_Min: "xs \<noteq> [] \<Longrightarrow> py_min xs = Inr (Min (set xs))"
  by (cases xs) (simp_all add: Min.set_eq_fold [symmetric])

lemma py_max_Max: "xs \<noteq> [] \<Longrightarrow> py_max xs = Inr (Max (set xs))"
  by (cases xs) (simp_all add: Max.set_eq_fold [symmetric])






text \<open>In exact arithmetic \<open>linspace\<close> returns what is expected of it, for every span.\<close>

lemma linspace_exact_axis:
  fixes start stop :: "'a::linordered_field"
  assumes "2 \<le> num" and "start \<le> stop"
  shows "\<exists>ys. linspace_exact start stop num = Inr ys \<and> axis_spans start stop num ys"
proof -
  define step where "step = (stop - start) / of_int (num - 1)"
  define f where "f = (\<lambda>i::nat. start + of_nat i * step)"
  define n where "n = nat num - 1"
  have n: "0 < n" "int n = num - 1" using assms(1) unfolding n_def by linarith+
  have eq: "linspace_exact start stop num = Inr (map f [0..<n] @ [stop])"
    using assms(1) by (simp add: linspace_exact_def f_def step_def n_def)
  have total: "of_nat n * step = stop - start"
  proof -
    have "(of_nat n :: 'a) = of_int (num - 1)" using n(2) by (metis of_int_of_nat_eq)
    moreover have "(of_int (num - 1) :: 'a) \<noteq> 0" using assms(1) by simp
    ultimately show ?thesis by (simp add: step_def)
  qed
  have hd: "hd (map f [0..<n] @ [stop]) = start"
    using n(1) by (simp add: hd_append hd_map f_def upt_conv_Cons)
  have len: "length (map f [0..<n] @ [stop]) = nat num"
    using assms(1) by (simp add: n_def)
  have shape: "if start < stop then sorted_wrt (<) (map f [0..<n] @ [stop])
               else map f [0..<n] @ [stop] = replicate (nat num) start"
  proof (cases "start < stop")
    case True
    then have step: "0 < step" using assms(1) by (simp add: step_def)
    have mono: "\<And>i j. i < j \<Longrightarrow> f i < f j"
      using step by (simp add: f_def)
    have below: "\<And>i. i < n \<Longrightarrow> f i < stop"
    proof -
      fix i assume "i < n"
      then have "(of_nat i :: 'a) * step < of_nat n * step"
        using step by simp
      then show "f i < stop" using total by (simp add: f_def)
    qed
    have "sorted_wrt (<) (map f [0..<n])"
      by (auto simp: sorted_wrt_map sorted_wrt_iff_nth_less intro: mono)
    then have "sorted_wrt (<) (map f [0..<n] @ [stop])"
      using below by (auto simp: sorted_wrt_append)
    with True show ?thesis by simp
  next
    case False
    with assms(2) have same: "stop = start" by simp
    then have "step = 0" by (simp add: step_def)
    then have "map f [0..<n] = replicate n start"
      by (simp add: f_def map_replicate_const)
    moreover have "replicate n start @ [start] = replicate (Suc n) start"
      by (simp add: replicate_append_same)
    moreover have "Suc n = nat num" using assms(1) by (simp add: n_def)
    ultimately show ?thesis using False same by simp
  qed
  show ?thesis
    unfolding axis_spans_def using eq hd len shape by (auto split: if_splits)
qed




section \<open>The whole run\<close>

text \<open>
  \<^verbatim>\<open>main\<close> computes the grid, tests the connection and enters the loop.
\<close>

lemma main_enters_loop:
  assumes "get_grid_coordinates w (COORDINATES w) 8 st = (Inr weather_area, st1)"
  shows "main n w st =
           while_true n w weather_area 0
             (st1\<lparr>trace := trace st1 @
                 [Log INFO ''Attempting to connect to MongoDB Server'' [],
                  Log INFO ''Initiate connection test'' [],
                  Ping,
                  (case ping w of
                     None \<Rightarrow> Log INFO ''MongoDB connection successful!'' []
                   | Some e \<Rightarrow> LogException ''MongoDB Connection Failure!'' e)]\<rparr>)"
  using assms by (simp add: main_def Let_def emit_def split: option.split)

lemma grid_keeps_counters:
  "gets (snd (get_grid_coordinates w corners d st)) = gets st"
  "inserts (snd (get_grid_coordinates w corners d st)) = inserts st"
  by (simp_all add: get_grid_coordinates_def Let_def split: sum.split)

lemma grid_nonempty:
  assumes "linspace w = linspace_exact" and "corners \<noteq> []" and "2 \<le> d"
  shows "\<exists>p ps st1. get_grid_coordinates w corners d st = (Inr (p # ps), st1)"
proof -
  let ?lat = "map fst corners" and ?lon = "map snd corners"
  have ne: "?lat \<noteq> []" "?lon \<noteq> []" using assms(2) by simp_all
  have le_lat: "Min (set ?lat) \<le> Max (set ?lat)" using ne(1) by (simp add: Min_le_iff)
  have le_lon: "Min (set ?lon) \<le> Max (set ?lon)" using ne(2) by (simp add: Min_le_iff)
  from linspace_exact_axis [OF assms(3) le_lat] obtain lats where lats:
    "linspace w (Min (set ?lat)) (Max (set ?lat)) d = Inr lats" "length lats = nat d"
    by (auto simp: assms(1) axis_spans_def)
  from linspace_exact_axis [OF assms(3) le_lon] obtain lons where lons:
    "linspace w (Min (set ?lon)) (Max (set ?lon)) d = Inr lons" "length lons = nat d"
    by (auto simp: assms(1) axis_spans_def)
  from lats(2) lons(2) assms(3) obtain a as b bs where "lats = a # as" "lons = b # bs"
    by (cases lats; cases lons) auto
  then show ?thesis
    using ne lats(1) lons(1)
    by (simp add: get_grid_coordinates_def Let_def py_min_Min py_max_Max)
qed

section \<open>Further properties\<close>

text \<open>
  X1. With \<open>max_retries \<ge> 1\<close> and a store that asks for a reconnect at every insert, the
  writer raises the \<^verbatim>\<open>AutoReconnect\<close> after exactly \<open>max_retries\<close> inserts (not
  \<open>max_retries + 1\<close>), having paused for \<open>1, 4, ..., (max_retries - 1)\<^sup>2\<close> seconds.
\<close>

theorem persist_raises_after_max_retries:
  assumes "1 \<le> max_retries"
      and "\<forall>i<nat max_retries. insert_one w (inserts st + i) = InsertRaises AutoReconnect"
  shows "(case insert_data_to_mongodb w database collection (PDict d) max_retries st of
            (r, data', st') \<Rightarrow>
              r = Inl AutoReconnect
              \<and> inserts st' = inserts st + nat max_retries
              \<and> sleeps (trace st') =
                  sleeps (trace st) @ map (\<lambda>n. of_nat (n ^ 2)) [1..<nat max_retries])"
proof -
  let ?st1 = "st\<lparr>clock_reads := Suc (clock_reads st)\<rparr>"
  let ?doc = "sent w st d"
  define k where "k = nat max_retries - 1"
  have k: "int k - 1 = max_retries - 2" "Suc k = nat max_retries"
    using assms(1) unfolding k_def by linarith+
  have doc: "ensure_id w (inserts ?st1) (stamped w st d) = ?doc"
    by (simp add: sent_def)
  have "insert_attempts w database collection (stamped w st d) max_retries [0..max_retries] ?st1 =
          (Inl AutoReconnect, ensure_id w (inserts ?st1) (stamped w st d),
           ?st1\<lparr>trace := trace ?st1
                   @ concat (map (retry_events database collection
                                    (ensure_id w (inserts ?st1) (stamped w st d)))
                               [0..max_retries - 2])
                   @ [InsertOne database collection (ensure_id w (inserts ?st1) (stamped w st d)),
                      Log ERROR ''Max retries exceeded, mongodb reconnection has failed'' []],
              inserts := inserts ?st1 + nat max_retries\<rparr>)"
    using assms by (intro insert_attempts_exhausted) simp_all
  then have run: "insert_data_to_mongodb w database collection (PDict d) max_retries st =
      (Inl AutoReconnect, PDict ?doc,
       st\<lparr>trace := trace st @ concat (map (retry_events database collection ?doc) [0..max_retries - 2])
                     @ [InsertOne database collection ?doc,
                        Log ERROR ''Max retries exceeded, mongodb reconnection has failed'' []],
          inserts := inserts st + nat max_retries,
          clock_reads := Suc (clock_reads st)\<rparr>)"
    unfolding doc by (simp add: insert_data_to_mongodb_def stamped_def Let_def)
  have "sleeps [InsertOne database collection ?doc,
                Log ERROR ''Max retries exceeded, mongodb reconnection has failed'' []] = []"
    by (simp add: sleeps_def)
  then have pauses:
    "sleeps (trace st @ concat (map (retry_events database collection ?doc) [0..max_retries - 2])
               @ [InsertOne database collection ?doc,
                  Log ERROR ''Max retries exceeded, mongodb reconnection has failed'' []])
       = sleeps (trace st) @ map (\<lambda>n. of_nat (n ^ 2)) [1..<nat max_retries]"
    using squares_upto [of k]
    by (simp only: sleeps_append sleeps_retry_events append_Nil2 k)
  show ?thesis
    using run pauses by simp
qed

theorem persist_raises_after_max_retries_witness:
  "(case insert_data_to_mongodb (sample_world\<lparr>insert_one := (\<lambda>k. InsertRaises AutoReconnect)\<rparr>)
           ''db'' ''coll'' (PDict [(''temp'', PInt 300)]) 2 init_state of
      (r, data', st') \<Rightarrow>
        r = Inl AutoReconnect \<and> inserts st' = 2 \<and> sleeps (trace st') = [1])"
proof -
  have "sleeps ([] :: rat event list) = []" by (simp add: sleeps_def)
  then show ?thesis
    using persist_raises_after_max_retries
      [where w = "sample_world\<lparr>insert_one := (\<lambda>k. InsertRaises AutoReconnect)\<rparr>"
         and max_retries = 2 and st = init_state and d = "[(''temp'', PInt 300)]"
         and database = "''db''" and collection = "''coll''"]
    by (simp add: init_state_def numeral_2_eq_2)
qed

text \<open>
  X2. Once the grid is there, a first response whose body is not JSON ends \<^verbatim>\<open>main\<close> with
  \<^verbatim>\<open>JSONDecodeError\<close>, nothing persisted.
\<close>

theorem main_ends_on_non_json:
  assumes "get_grid_coordinates w (COORDINATES w) 8 st = (Inr (p # ps), st1)"
      and "requests_get w (gets st) = Responds response"
      and "json_loads w (resp_text response) = None"
  shows "\<exists>st'. main (Suc n) w st = Some (JSONDecodeError, 0, st') \<and> inserts st' = inserts st"
proof -
  have same: "gets st1 = gets st" and kept: "inserts st1 = inserts st"
    using grid_keeps_counters [of w "COORDINATES w" 8 st] assms(1) by simp_all
  let ?st4 = "st1\<lparr>trace := trace st1 @
                 [Log INFO ''Attempting to connect to MongoDB Server'' [],
                  Log INFO ''Initiate connection test'' [],
                  Ping,
                  (case ping w of
                     None \<Rightarrow> Log INFO ''MongoDB connection successful!'' []
                   | Some e \<Rightarrow> LogException ''MongoDB Connection Failure!'' e)]\<rparr>"
  have "requests_get w (gets ?st4) = Responds response" using assms(2) same by simp
  then have "loop_body w p 0 ?st4 = (Inl JSONDecodeError, 0, fetch_sent w (fst p) (snd p) [] ?st4)"
    using assms(3) by (simp add: loop_body_def get_current_weather_cases)
  then have "while_true (Suc n) w (p # ps) 0 ?st4 =
               Some (JSONDecodeError, 0, fetch_sent w (fst p) (snd p) [] ?st4)"
    by simp
  then have "main (Suc n) w st = Some (JSONDecodeError, 0, fetch_sent w (fst p) (snd p) [] ?st4)"
    using main_enters_loop [OF assms(1), of "Suc n"] by simp
  moreover have "inserts (fetch_sent w (fst p) (snd p) [] ?st4) = inserts st"
    using kept by simp
  ultimately show ?thesis by blast
qed

theorem main_ends_on_non_json_witness:
  \<open>\<exists>st'. main 1 (always_answers \<lparr>status_code = 200, resp_text = ''<html>''\<rparr>) init_state
            = Some (JSONDecodeError, 0, st') \<and> inserts st' = 0\<close>
proof -
  let ?w = \<open>always_answers \<lparr>status_code = 200, resp_text = ''<html>''\<rparr>\<close>
  have lin: "linspace ?w = linspace_exact"
    by (simp add: always_answers_def sample_world_def)
  have ne: "COORDINATES ?w \<noteq> []"
    by (simp add: always_answers_def sample_world_def)
  from grid_nonempty [OF lin ne, of 8 init_state] obtain p ps st1 where
    grid: "get_grid_coordinates ?w (COORDINATES ?w) 8 init_state = (Inr (p # ps), st1)"
    by auto
  have resp: \<open>requests_get ?w (gets (init_state :: rat state))
                = Responds \<lparr>status_code = 200, resp_text = ''<html>''\<rparr>\<close>
    by (simp add: always_answers_def)
  have bad: \<open>json_loads ?w (resp_text \<lparr>status_code = 200, resp_text = ''<html>''\<rparr>) = None\<close>
    by (simp add: always_answers_def sample_world_def sample_loads_def)
  from main_ends_on_non_json [OF grid resp bad, of 0]
  show ?thesis by (simp add: init_state_def)
qed

end
